theory Spec2Isabelle
  imports Main "HOL-Library.Word" "HOL-Library.Sublist"
begin

unbundle bit_operations_syntax

section \<open>Pixel conversion (kmsgrab.c, lines 23 to 64)\<close>

text \<open>
  \<^verbatim>\<open>typedef struct { uint8_t r, g, b; } uint24_t;\<close>
  Three bytes in declaration order, so an array of \<open>uint24_t\<close> is a packed RGB888 buffer.
\<close>

record uint24_t =
  r :: "8 word"
  g :: "8 word"
  b :: "8 word"

text \<open>
  \<open>rgb16_to_24\<close> (lines 27 to 36). The \<open>uint16_t\<close> argument is promoted to a 32-bit
  \<open>int\<close> before masking and shifting; the assignment to a \<open>uint8_t\<close> field keeps the
  low eight bits (\<open>ucast\<close>).
\<close>

definition rgb16_to_24 :: "16 word \<Rightarrow> uint24_t" where
  "rgb16_to_24 px =
     \<lparr> r = ucast (drop_bit 8 ((ucast px :: 32 word) AND 0xf800)),
       g = ucast (drop_bit 3 ((ucast px :: 32 word) AND 0x7e0)),
       b = ucast (push_bit 3 ((ucast px :: 32 word) AND 0x1f)) \<rparr>"

text \<open>\<open>rgb32_to_24\<close> (lines 39 to 48), on a \<open>uint32_t\<close>.\<close>

definition rgb32_to_24 :: "32 word \<Rightarrow> uint24_t" where
  "rgb32_to_24 px =
     \<lparr> r = ucast (drop_bit 16 px AND 0xff),
       g = ucast (drop_bit 8 px AND 0xff),
       b = ucast (px AND 0xff) \<rparr>"

text \<open>
  \<open>drmModeFB\<close> is declared in libdrm's \<open>xf86drmMode.h\<close>; the program reads the four
  \<open>uint32_t\<close> fields below.
\<close>

record drmModeFB =
  width :: "32 word"
  height :: "32 word"
  bpp :: "32 word"
  handle :: "32 word"

text \<open>
  Where a run leaves what the program defines, it stops there with a value that says why,
  so that such a run is visible as such: behaviour the C standard leaves undefined, and an
  error inside libpng. libpng reports an error through \<open>png_error\<close>, which does not
  return; the program installs no error handler and no \<open>setjmp\<close> target, so the process
  is aborted (or, in old versions of the library, jumps through a buffer never set).
\<close>

datatype ub =
    Null_dereference
  | Read_outside_mapping
  | Write_outside_allocation
  | Read_outside_allocation
  | Png_error_unhandled

text \<open>
  The source buffer is the byte sequence of the mapping. \<open>*ptr++\<close> on a \<open>uint16_t *\<close>
  consumes two bytes, on a \<open>uint32_t *\<close> four, least significant byte first (the byte
  order of the little-endian machines the DRM formats are defined on). A read past the end
  of the mapping is undefined.
\<close>

definition le16 :: "8 word \<Rightarrow> 8 word \<Rightarrow> 16 word" where
  "le16 b0 b1 = ucast b0 OR push_bit 8 (ucast b1)"

definition le32 :: "8 word \<Rightarrow> 8 word \<Rightarrow> 8 word \<Rightarrow> 8 word \<Rightarrow> 32 word" where
  "le32 b0 b1 b2 b3 =
     ucast b0 OR push_bit 8 (ucast b1) OR push_bit 16 (ucast b2) OR push_bit 24 (ucast b3)"

text \<open>The loop of lines 57 and 58: \<open>while (len--) *to++ = rgb16_to_24(*ptr++);\<close>\<close>

fun conv16 :: "nat \<Rightarrow> 8 word list \<Rightarrow> ub + uint24_t list" where
  "conv16 0 frm = Inr []"
| "conv16 (Suc len) (b0 # b1 # frm) =
     (case conv16 len frm of
        Inl u \<Rightarrow> Inl u
      | Inr to \<Rightarrow> Inr (rgb16_to_24 (le16 b0 b1) # to))"
| "conv16 (Suc len) _ = Inl Read_outside_mapping"

text \<open>The loop of lines 61 and 62: \<open>while (len--) *to++ = rgb32_to_24(*ptr++);\<close>\<close>

fun conv32 :: "nat \<Rightarrow> 8 word list \<Rightarrow> ub + uint24_t list" where
  "conv32 0 frm = Inr []"
| "conv32 (Suc len) (b0 # b1 # b2 # b3 # frm) =
     (case conv32 len frm of
        Inl u \<Rightarrow> Inl u
      | Inr to \<Rightarrow> Inr (rgb32_to_24 (le32 b0 b1 b2 b3) # to))"
| "conv32 (Suc len) _ = Inl Read_outside_mapping"

text \<open>
  \<open>convert_to_24\<close> (lines 51 to 64). \<open>len\<close> is an \<open>unsigned int\<close>: the product of the
  two \<open>uint32_t\<close> dimensions wraps at \<open>2 ^ 32\<close>. The result is the content of \<open>to[0..len)\<close>.
\<close>

definition convert_to_24 :: "drmModeFB \<Rightarrow> 8 word list \<Rightarrow> ub + uint24_t list" where
  "convert_to_24 fb frm =
     (let len = unat (width fb * height fb) in
      if bpp fb = 16 then conv16 len frm else conv32 len frm)"

text \<open>The bytes of an array of \<open>uint24_t\<close>, as \<open>png_write_image\<close> reads them.\<close>

definition picture_bytes :: "uint24_t list \<Rightarrow> 8 word list" where
  "picture_bytes to = concat (map (\<lambda>pixel. [r pixel, g pixel, b pixel]) to)"

section \<open>The process and what it observes\<close>

text \<open>
  The results of the system and library calls are the program's input: one field per
  call site. \<open>None\<close> or \<open>False\<close> is the failing return (\<open>NULL\<close>, a negative
  descriptor); an \<open>int\<close> beside a failure is the value of \<open>errno\<close> the program reads.
  \<open>mmap_prime\<close> is the content of the exported buffer object, and \<open>page_size\<close> the page
  size of the machine (positive on any machine). A field named \<open>..._error\<close> says whether
  that call into libpng ends in \<open>png_error\<close>.
\<close>

record drmModeCrtc =
  buffer_id :: "32 word"

record env =
  argv :: "string list"
  getuid :: nat
  saved_uid :: nat
  start_euid :: nat
  open_card :: "32 word \<Rightarrow> bool"
  drmGetCap :: "32 word \<Rightarrow> int \<times> 64 word"
  open_again :: bool
  set_atomic_cap :: int
  set_universal_planes_cap :: int
  drmModeGetResources :: "32 word list option"
  drmModeGetCrtc :: "32 word \<Rightarrow> drmModeCrtc option"
  drmModeGetFB :: "32 word \<Rightarrow> drmModeFB option"
  drmPrimeHandleToFD :: int
  malloc_picture :: bool
  page_size :: nat
  mmap_prime :: "int + 8 word list"
  fopen_png :: "int option"
  png_create_write_struct :: "int option"
  png_create_info_struct :: "int option"
  png_set_IHDR_error :: bool
  png_write_info_error :: bool
  malloc_row_pointers :: bool
  png_write_image_error :: bool
  png_write_end_error :: bool

datatype diag =
    Usage
  | Could_not_open_device
  | Unable_to_set_atomic_cap
  | Unable_to_set_universal_planes_cap
  | Unable_to_get_mode_resources
  | No_CRTC_found
  | Failed_to_get_framebuffer "32 word"
  | Failed_to_retrieve_prime_handler int
  | Unable_to_mmap_prime_buffer
  | Failed_to_take_screenshot int

datatype event =
    Msg diag
  | Prime_fd nat
  | Seteuid nat
  | Fopen string nat
  | Png_set_IHDR "32 word" "32 word"
  | Png_write_info
  | Png_write_image "nat list"
  | Png_write_end
  | Fclose

datatype fd_kind = Card "32 word" | Prime

text \<open>
  The process: its open descriptors (each with what it refers to), the next descriptor
  number, its effective user id, and what it has done so far, in order. \<open>Fopen\<close> records
  the path and the effective user id the file is opened under. The events named after
  libpng functions are the calls of these functions, with the arguments the program
  passes: \<open>Png_write_image\<close> carries the row pointers, as offsets from \<open>picture\<close>.
\<close>

record proc =
  fds :: "(nat \<times> fd_kind) list"
  next_fd :: nat
  euid :: nat
  trace :: "event list"

definition proc0 :: "env \<Rightarrow> proc" where
  "proc0 e = \<lparr> fds = [], next_fd = 3, euid = start_euid e, trace = [] \<rparr>"

definition emit :: "event \<Rightarrow> proc \<Rightarrow> proc" where
  "emit ev s = s\<lparr> trace := trace s @ [ev] \<rparr>"

text \<open>
  \<open>open\<close> returns the descriptor \<open>next_fd s\<close> and leaves the process in \<open>open_fd k s\<close>.
  Descriptors are numbered in the order they are opened, from 3 on (0 to 2 are the standard
  streams); the kernel would give out the lowest free number again, but which number a
  descriptor has plays no part below, only which descriptors are open.
\<close>

definition open_fd :: "fd_kind \<Rightarrow> proc \<Rightarrow> proc" where
  "open_fd k s = s\<lparr> fds := fds s @ [(next_fd s, k)], next_fd := Suc (next_fd s) \<rparr>"

definition close_fd :: "nat \<Rightarrow> proc \<Rightarrow> proc" where
  "close_fd fd s = s\<lparr> fds := filter (\<lambda>p. fst p \<noteq> fd) (fds s) \<rparr>"

text \<open>
  \<open>seteuid\<close> as POSIX specifies it: the effective user id becomes \<open>uid\<close> when \<open>uid\<close> is the
  real or the saved user id or the process is privileged, and is unchanged otherwise. The
  program ignores the return value (line 89).
\<close>

definition seteuid :: "env \<Rightarrow> nat \<Rightarrow> proc \<Rightarrow> proc" where
  "seteuid e uid s =
     emit (Seteuid uid)
       (if uid = getuid e \<or> uid = saved_uid e \<or> euid s = 0 then s\<lparr> euid := uid \<rparr> else s)"

definition ENOMEM :: int where
  "ENOMEM = 12"

definition EINVAL :: int where
  "EINVAL = 22"

definition EXIT_SUCCESS :: int where
  "EXIT_SUCCESS = 0"

definition EXIT_FAILURE :: int where
  "EXIT_FAILURE = 1"

text \<open>
  \<open>mmap\<close> (line 80) of \<open>len\<close> bytes of the exported buffer: a length of zero fails with
  \<open>EINVAL\<close> (POSIX); otherwise the call fails as the environment says, or maps the buffer
  object from its start. A mapping consists of whole pages: the bytes that can be read are
  those of the object up to the end of the last page that \<open>len\<close> reaches.
\<close>

definition mapped_length :: "env \<Rightarrow> nat \<Rightarrow> nat" where
  "mapped_length e len = ((len + page_size e - 1) div page_size e) * page_size e"

definition mmap :: "env \<Rightarrow> 32 word \<Rightarrow> int + 8 word list" where
  "mmap e len =
     (if len = 0 then Inl EINVAL
      else case mmap_prime e of
        Inl errno \<Rightarrow> Inl errno
      | Inr obj \<Rightarrow> Inr (take (mapped_length e (unat len)) obj))"

section \<open>Writing the image (\<open>save_png\<close>, lines 66 to 148)\<close>

text \<open>
  Lines 128 and 129: \<open>row_pointers[i] = picture + i * fb->width * 3\<close> for \<open>i\<close> below
  \<open>fb->height\<close>, the offset computed in \<open>unsigned int\<close>.
\<close>

definition row_offset :: "drmModeFB \<Rightarrow> nat \<Rightarrow> nat" where
  "row_offset fb i = unat ((of_nat i :: 32 word) * width fb * 3)"

definition row_pointers :: "drmModeFB \<Rightarrow> nat list" where
  "row_pointers fb = map (row_offset fb) [0 ..< unat (height fb)]"

text \<open>
  \<open>png_write_image\<close> reads, at each row pointer, the bytes of one row: with the header set
  at line 111 (eight bits, RGB), \<open>3 * width\<close> bytes. \<open>image_rows mem n ptrs\<close> is what it reads
  from the memory \<open>mem\<close> at \<open>picture\<close>, where the rows lie inside \<open>mem\<close>.
\<close>

definition image_rows :: "8 word list \<Rightarrow> nat \<Rightarrow> nat list \<Rightarrow> 8 word list list" where
  "image_rows mem n ptrs = map (\<lambda>p. take n (drop p mem)) ptrs"

text \<open>
  \<open>save_png\<close>. The result is the returned \<open>int\<close>, or the reason the call did not return,
  with the process afterwards. \<open>picture\<close> is an allocation of \<open>width * height * 4\<close> bytes
  (in \<open>unsigned int\<close>, line 76): the conversion writes three bytes for each pixel into it,
  and \<open>png_write_image\<close>, which is called whatever the row pointers are (line 131), reads
  the rows from it. A write or a read past the end of the allocation is undefined. Each of
  \<open>png_set_IHDR\<close>, \<open>png_write_info\<close>, \<open>png_write_image\<close> and \<open>png_write_end\<close> can end in
  \<open>png_error\<close> (a header libpng refuses, a failing write to the file).
\<close>

definition save_png :: "env \<Rightarrow> drmModeFB \<Rightarrow> nat \<Rightarrow> string \<Rightarrow> proc \<Rightarrow> (ub + int) \<times> proc" where
  "save_png e fb prime_fd png_fn s =
     (if \<not> malloc_picture e then (Inr (- ENOMEM), s)
      else case mmap e (drop_bit 3 (bpp fb) * width fb * height fb) of
        Inl errno \<Rightarrow> (Inr (- errno), emit (Msg Unable_to_mmap_prime_buffer) s)
      | Inr buffer \<Rightarrow>
          let s1 = seteuid e (getuid e) s in
          (case fopen_png e of
             Some errno \<Rightarrow> (Inr (- errno), s1)
           | None \<Rightarrow>
               let s2 = emit (Fopen png_fn (euid s1)) s1 in
               (case png_create_write_struct e of
                  Some errno \<Rightarrow> (Inr (- errno), emit Fclose s2)
                | None \<Rightarrow>
                    (case png_create_info_struct e of
                       Some errno \<Rightarrow> (Inr (- errno), emit Fclose s2)
                     | None \<Rightarrow>
                         let s3 = emit (Png_set_IHDR (width fb) (height fb)) s2 in
                         if png_set_IHDR_error e then (Inl Png_error_unhandled, s3)
                         else
                           let s4 = emit Png_write_info s3 in
                           if png_write_info_error e then (Inl Png_error_unhandled, s4)
                           else
                             (case convert_to_24 fb buffer of
                                Inl u \<Rightarrow> (Inl u, s4)
                              | Inr picture \<Rightarrow>
                                  if unat (width fb * height fb * 4) < 3 * length picture
                                  then (Inl Write_outside_allocation, s4)
                                  else if \<not> malloc_row_pointers e
                                  then (Inr (- ENOMEM), emit Fclose s4)
                                  else
                                    let s5 = emit (Png_write_image (row_pointers fb)) s4 in
                                    if \<not> list_all (\<lambda>p. p + 3 * unat (width fb)
                                                        \<le> unat (width fb * height fb * 4))
                                               (row_pointers fb)
                                    then (Inl Read_outside_allocation, s5)
                                    else if png_write_image_error e
                                    then (Inl Png_error_unhandled, s5)
                                    else
                                      let s6 = emit Png_write_end s5 in
                                      if png_write_end_error e
                                      then (Inl Png_error_unhandled, s6)
                                      else (Inr 0, emit Fclose s6))))))"

section \<open>The program (\<open>main\<close>, lines 150 to 251)\<close>

text \<open>
  The scan of lines 166 to 180: \<open>for (card = 0; ; card++)\<close> over \<open>/dev/dri/card<card>\<close>.
  \<open>card\<close> (here \<open>idx\<close>) is an \<open>unsigned int\<close>, and the loop ends only at a failing
  \<open>open\<close> or at a device with the dumb-buffer capability, so the scan is a function that
  may not return. It returns the index of the device it stopped at (the path left in
  \<open>buf\<close>), or nothing when an \<open>open\<close> failed.
\<close>

partial_function (option) scan_cards :: "env \<Rightarrow> 32 word \<Rightarrow> proc \<Rightarrow> (32 word option \<times> proc) option" where
  "scan_cards e idx s =
     (if \<not> open_card e idx then Some (None, emit (Msg Could_not_open_device) s)
      else if 0 \<le> fst (drmGetCap e idx) \<and> snd (drmGetCap e idx) \<noteq> 0
      then Some (Some idx, open_fd (Card idx) s)
      else scan_cards e (idx + 1) (close_fd (next_fd s) (open_fd (Card idx) s)))"

text \<open>
  Lines 166 to 186: the scan, then the second \<open>open\<close> of the same path (line 182), whose
  result overwrites \<open>drm_fd\<close>. The result is the value of \<open>drm_fd\<close>.
\<close>

definition device_locator :: "env \<Rightarrow> proc \<Rightarrow> (nat option \<times> proc) option" where
  "device_locator e s =
     (case scan_cards e 0 s of
        None \<Rightarrow> None
      | Some (None, s1) \<Rightarrow> Some (None, s1)
      | Some (Some idx, s1) \<Rightarrow>
          if open_again e then Some (Some (next_fd s1), open_fd (Card idx) s1)
          else Some (None, emit (Msg Could_not_open_device) s1))"

text \<open>
  The loop of lines 204 to 211 over \<open>res->crtcs\<close>. \<open>crtc->buffer_id\<close> is read without a
  test of \<open>crtc\<close>. \<open>None\<close> is the loop running to \<open>i == res->count_crtcs\<close>.
\<close>

fun find_fb :: "env \<Rightarrow> 32 word list \<Rightarrow> ub + 32 word option" where
  "find_fb e [] = Inr None"
| "find_fb e (c # crtcs) =
     (case drmModeGetCrtc e c of
        None \<Rightarrow> Inl Null_dereference
      | Some crtc \<Rightarrow>
          if buffer_id crtc \<noteq> 0 then Inr (Some (buffer_id crtc)) else find_fb e crtcs)"

datatype outcome = Exit int | Undefined ub

text \<open>Lines 218 to 248, from the framebuffer identifier on.\<close>

definition grab :: "env \<Rightarrow> nat \<Rightarrow> 32 word \<Rightarrow> proc \<Rightarrow> outcome \<times> proc" where
  "grab e drm_fd fb_id s =
     (case drmModeGetFB e fb_id of
        None \<Rightarrow> (Exit EXIT_FAILURE, close_fd drm_fd (emit (Msg (Failed_to_get_framebuffer fb_id)) s))
      | Some fb \<Rightarrow>
          if drmPrimeHandleToFD e < 0
          then (Exit EXIT_FAILURE,
                close_fd drm_fd (emit (Msg (Failed_to_retrieve_prime_handler (- drmPrimeHandleToFD e))) s))
          else
            let prime_fd = next_fd s;
                s1 = emit (Prime_fd prime_fd) (open_fd Prime s)
            in (case save_png e fb prime_fd (argv e ! 1) s1 of
                  (Inl u, s2) \<Rightarrow> (Undefined u, s2)
                | (Inr err, s2) \<Rightarrow>
                    if err < 0
                    then (Exit EXIT_FAILURE,
                          close_fd drm_fd (close_fd prime_fd
                            (emit (Msg (Failed_to_take_screenshot (- err))) s2)))
                    else (Exit EXIT_SUCCESS, close_fd drm_fd (close_fd prime_fd s2))))"

text \<open>Lines 188 to 216: the client capabilities, the resources, the loop over the CRTCs.\<close>

definition output_discovery :: "env \<Rightarrow> nat \<Rightarrow> proc \<Rightarrow> outcome \<times> proc" where
  "output_discovery e drm_fd s =
     (if set_atomic_cap e \<noteq> 0
      then (Exit EXIT_FAILURE, close_fd drm_fd (emit (Msg Unable_to_set_atomic_cap) s))
      else if set_universal_planes_cap e \<noteq> 0
      then (Exit EXIT_FAILURE, close_fd drm_fd (emit (Msg Unable_to_set_universal_planes_cap) s))
      else case drmModeGetResources e of
        None \<Rightarrow> (Exit EXIT_FAILURE, close_fd drm_fd (emit (Msg Unable_to_get_mode_resources) s))
      | Some crtcs \<Rightarrow>
          (case find_fb e crtcs of
             Inl u \<Rightarrow> (Undefined u, s)
           | Inr None \<Rightarrow> (Exit EXIT_FAILURE, close_fd drm_fd (emit (Msg No_CRTC_found) s))
           | Inr (Some fb_id) \<Rightarrow> grab e drm_fd fb_id s))"

text \<open>\<open>main\<close>: \<open>None\<close> when the scan does not return.\<close>

definition main :: "env \<Rightarrow> (outcome \<times> proc) option" where
  "main e =
     (if length (argv e) < 2 then Some (Exit EXIT_FAILURE, emit (Msg Usage) (proc0 e))
      else case device_locator e (proc0 e) of
        None \<Rightarrow> None
      | Some (None, s) \<Rightarrow> Some (Exit EXIT_FAILURE, s)
      | Some (Some drm_fd, s) \<Rightarrow> Some (output_discovery e drm_fd s))"

section \<open>Reading a run\<close>

text \<open>
  Two views of the trace: the events that matter to the order of privileges (the export
  descriptor, the drop, the opening of the output file), and the events that touch the
  destination file (the image sink).
\<close>

fun privilege_event :: "event \<Rightarrow> bool" where
  "privilege_event (Prime_fd fd) = True"
| "privilege_event (Seteuid uid) = True"
| "privilege_event (Fopen fn uid) = True"
| "privilege_event ev = False"

fun sink_event :: "event \<Rightarrow> bool" where
  "sink_event (Msg m) = False"
| "sink_event (Prime_fd fd) = False"
| "sink_event (Seteuid uid) = False"
| "sink_event ev = True"

section \<open>Concrete runs\<close>

text \<open>
  A set-user-id run by user 1000: \<open>card0\<close> opens but has no dumb-buffer capability,
  \<open>card1\<close> has it; of the CRTCs 10 and 11 the second scans out framebuffer 42, a 2 by 2
  buffer of 32 bits per pixel holding blue, green, red and white in a buffer object of one
  page.
\<close>

definition fb_2x2 :: drmModeFB where
  "fb_2x2 = \<lparr> width = 2, height = 2, bpp = 32, handle = 7 \<rparr>"

definition buffer_object :: "8 word list" where
  "buffer_object =
     [0xFF, 0, 0, 0,  0, 0xFF, 0, 0,  0, 0, 0xFF, 0,  0xFF, 0xFF, 0xFF, 0] @ replicate 4080 0"

definition env_ok :: env where
  "env_ok =
     \<lparr> argv = [''kmsgrab'', ''out.png''],
       getuid = 1000, saved_uid = 0, start_euid = 0,
       open_card = (\<lambda>idx. idx < 2),
       drmGetCap = (\<lambda>idx. if idx = 1 then (0, 1) else (0, 0)),
       open_again = True,
       set_atomic_cap = 0,
       set_universal_planes_cap = 0,
       drmModeGetResources = Some [10, 11],
       drmModeGetCrtc = (\<lambda>c. Some \<lparr> buffer_id = (if c = 11 then 42 else 0) \<rparr>),
       drmModeGetFB = (\<lambda>i. if i = 42 then Some fb_2x2 else None),
       drmPrimeHandleToFD = 0,
       malloc_picture = True,
       page_size = 4096,
       mmap_prime = Inr buffer_object,
       fopen_png = None,
       png_create_write_struct = None,
       png_create_info_struct = None,
       png_set_IHDR_error = False,
       png_write_info_error = False,
       malloc_row_pointers = True,
       png_write_image_error = False,
       png_write_end_error = False \<rparr>"

text \<open>The same run with one call failing, or with other answers from the CRTC query.\<close>

definition env_rows_fail :: env where
  "env_rows_fail = env_ok\<lparr> malloc_row_pointers := False \<rparr>"

definition env_png_fail :: env where
  "env_png_fail = env_ok\<lparr> png_create_write_struct := Some 12 \<rparr>"

definition env_idle :: env where
  "env_idle = env_ok\<lparr> drmModeGetCrtc := (\<lambda>c. Some \<lparr> buffer_id = 0 \<rparr>) \<rparr>"

definition env_null_crtc :: env where
  "env_null_crtc = env_ok\<lparr> drmModeGetCrtc := (\<lambda>c. None) \<rparr>"

text \<open>The process after the device has been located in \<open>env_ok\<close>.\<close>

definition located :: proc where
  "located = \<lparr> fds = [(4, Card 1), (5, Card 1)], next_fd = 6, euid = 0, trace = [] \<rparr>"


definition fb_depth24 :: drmModeFB where
  "fb_depth24 = \<lparr> width = 1, height = 1, bpp = 24, handle = 1 \<rparr>"

definition fb_depth8 :: drmModeFB where
  "fb_depth8 = \<lparr> width = 1, height = 1, bpp = 8, handle = 1 \<rparr>"

section \<open>The pixel recipes\<close>

lemma masks32:
  "(0x1f :: 32 word) = mask 5" "(0x7e0 :: 32 word) = push_bit 5 (mask 6)"
  "(0xf800 :: 32 word) = push_bit 11 (mask 5)" "(0xff :: 32 word) = mask 8"
  by (simp_all add: mask_numeral)

lemma masksnat:
  "(0x1f :: nat) = mask 5" "(0x7e0 :: nat) = push_bit 5 (mask 6)"
  "(0xf800 :: nat) = push_bit 11 (mask 5)" "(0xff :: nat) = mask 8"
  by (simp_all add: mask_numeral)

text \<open>
  C1. For every 16-bit pixel \<open>px\<close> the converted channels are, as numbers,
  \<open>b = (px & 0x1F) << 3\<close>, \<open>g = (px & 0x7E0) >> 3\<close> and \<open>r = (px & 0xF800) >> 8\<close>:
  nothing is lost when the value is stored in the byte, and nothing is rounded. The pixel
  \<open>0xFFFF\<close> becomes (248, 252, 248).
\<close>

theorem rgb16_to_24_recipe:
  "unat (b (rgb16_to_24 px)) = push_bit 3 (unat px AND 0x1F) \<and>
   unat (g (rgb16_to_24 px)) = drop_bit 3 (unat px AND 0x7E0) \<and>
   unat (r (rgb16_to_24 px)) = drop_bit 8 (unat px AND 0xF800) \<and>
   rgb16_to_24 0xFFFF = \<lparr> r = 248, g = 252, b = 248 \<rparr>"
proof (intro conjI)
  show "unat (b (rgb16_to_24 px)) = push_bit 3 (unat px AND 0x1F)"
    unfolding rgb16_to_24_def masks32 masksnat
    by (rule bit_eqI) (auto simp: bit_simps)
  show "unat (g (rgb16_to_24 px)) = drop_bit 3 (unat px AND 0x7E0)"
    unfolding rgb16_to_24_def masks32 masksnat
    by (rule bit_eqI) (auto simp: bit_simps)
  show "unat (r (rgb16_to_24 px)) = drop_bit 8 (unat px AND 0xF800)"
    unfolding rgb16_to_24_def masks32 masksnat
    by (rule bit_eqI) (auto simp: bit_simps)
  show "rgb16_to_24 0xFFFF = \<lparr> r = 248, g = 252, b = 248 \<rparr>"
    by (simp add: rgb16_to_24_def)
qed

text \<open>
  C2. For every 32-bit pixel \<open>px\<close> the converted channels are \<open>b = px & 0xFF\<close>,
  \<open>g = (px >> 8) & 0xFF\<close> and \<open>r = (px >> 16) & 0xFF\<close>. The top byte has no effect:
  whatever byte \<open>a\<close> stands above the low 24 bits of \<open>px\<close>, the result is that of \<open>px\<close>.
  The pixel \<open>0x00112233\<close> becomes (17, 34, 51).
\<close>

theorem rgb32_to_24_recipe:
  "unat (b (rgb32_to_24 px)) = unat px AND 0xFF \<and>
   unat (g (rgb32_to_24 px)) = drop_bit 8 (unat px) AND 0xFF \<and>
   unat (r (rgb32_to_24 px)) = drop_bit 16 (unat px) AND 0xFF \<and>
   rgb32_to_24 (push_bit 24 (ucast (a :: 8 word)) OR take_bit 24 px) = rgb32_to_24 px \<and>
   rgb32_to_24 0x00112233 = \<lparr> r = 17, g = 34, b = 51 \<rparr>"
proof (intro conjI)
  show "unat (b (rgb32_to_24 px)) = unat px AND 0xFF"
    unfolding rgb32_to_24_def masks32 masksnat
    by (rule bit_eqI) (auto simp: bit_simps)
  show "unat (g (rgb32_to_24 px)) = drop_bit 8 (unat px) AND 0xFF"
    unfolding rgb32_to_24_def masks32 masksnat
    by (rule bit_eqI) (auto simp: bit_simps)
  show "unat (r (rgb32_to_24 px)) = drop_bit 16 (unat px) AND 0xFF"
    unfolding rgb32_to_24_def masks32 masksnat
    by (rule bit_eqI) (auto simp: bit_simps)
  show "rgb32_to_24 (push_bit 24 (ucast a) OR take_bit 24 px) = rgb32_to_24 px"
    unfolding rgb32_to_24_def masks32
    by (simp, intro conjI; rule bit_word_eqI) (auto simp: bit_simps)
  show "rgb32_to_24 0x00112233 = \<lparr> r = 17, g = 34, b = 51 \<rparr>"
    by (simp add: rgb32_to_24_def)
qed

section \<open>The conversion loops\<close>

lemma conv16_length: "conv16 len frm = Inr to \<Longrightarrow> length to = len"
  by (induction len frm arbitrary: to rule: conv16.induct) (auto split: sum.splits)

lemma conv32_length: "conv32 len frm = Inr to \<Longrightarrow> length to = len"
  by (induction len frm arbitrary: to rule: conv32.induct) (auto split: sum.splits)

lemma conv32_enough: "4 * len \<le> length frm \<Longrightarrow> \<exists>to. conv32 len frm = Inr to"
  by (induction len frm rule: conv32.induct) (auto split: sum.splits)

lemma conv32_nth:
  "conv32 len frm = Inr to \<Longrightarrow> i < len \<Longrightarrow>
   to ! i = rgb32_to_24 (le32 (frm ! (4 * i)) (frm ! (4 * i + 1))
                              (frm ! (4 * i + 2)) (frm ! (4 * i + 3)))"
proof (induction len frm arbitrary: to i rule: conv32.induct)
  case (2 len b0 b1 b2 b3 frm)
  then show ?case
    by (cases i) (auto split: sum.splits simp: add.commute)
qed simp_all

lemma unat_mult_nowrap:
  "unat (x :: 32 word) * unat y < 2 ^ 32 \<Longrightarrow> unat (x * y) = unat x * unat y"
  by (simp add: unat_word_ariths)

text \<open>
  C10. For every framebuffer whose bits-per-pixel value is not 16, whatever else it is, the
  conversion of a source buffer is the conversion of the same buffer with \<open>bpp = 32\<close>: the
  32-bit loop over \<open>width * height\<close> (in \<open>unsigned int\<close>) pixels.
\<close>

theorem convert_to_24_not16_is_32:
  assumes "bpp fb \<noteq> 16"
  shows "convert_to_24 fb frm = convert_to_24 (fb\<lparr>bpp := 32\<rparr>) frm \<and>
         convert_to_24 fb frm = conv32 (unat (width fb * height fb)) frm"
  using assms by (simp add: convert_to_24_def)

theorem convert_to_24_not16_is_32_witness:
  "bpp fb_depth24 \<noteq> 16 \<and>
   convert_to_24 fb_depth24 [0x33, 0x22, 0x11, 0xAA] =
     convert_to_24 (fb_depth24\<lparr>bpp := 32\<rparr>) [0x33, 0x22, 0x11, 0xAA] \<and>
   convert_to_24 (fb_depth24\<lparr>bpp := 32\<rparr>) [0x33, 0x22, 0x11, 0xAA] =
     Inr [\<lparr> r = 17, g = 34, b = 51 \<rparr>]"
proof -
  have h: "bpp fb_depth24 \<noteq> 16"
    by (simp add: fb_depth24_def)
  have "convert_to_24 (fb_depth24\<lparr>bpp := 32\<rparr>) [0x33, 0x22, 0x11, 0xAA] =
          Inr [\<lparr> r = 17, g = 34, b = 51 \<rparr>]"
    by (simp add: convert_to_24_def fb_depth24_def le32_def rgb32_to_24_def)
  with h convert_to_24_not16_is_32 [OF h, of "[0x33, 0x22, 0x11, 0xAA]"] show ?thesis
    by simp
qed

text \<open>
  C3, as the claim states it, fails: a framebuffer of 24 bits per pixel is converted, its
  buffer read as 32-bit pixels, and an image is returned.
\<close>

theorem convert_to_24_depth24_returns_image:
  "convert_to_24 fb_depth24 [0x33, 0x22, 0x11, 0xAA] = Inr [\<lparr> r = 17, g = 34, b = 51 \<rparr>]"
  by (simp add: convert_to_24_def fb_depth24_def le32_def rgb32_to_24_def)

text \<open>
  C3, amended. For every framebuffer whose bits-per-pixel value is neither 16 nor 32 the
  conversion has no failure of its own: when the source buffer holds four bytes for each
  of the \<open>width * height\<close> (in \<open>unsigned int\<close>) pixels, it returns a complete image of that
  many pixels, each the 32-bit recipe applied to four consecutive bytes of the buffer.
\<close>

theorem convert_to_24_other_depth:
  assumes "bpp fb \<noteq> 16" and "bpp fb \<noteq> 32"
    and "4 * unat (width fb * height fb) \<le> length frm"
  shows "\<exists>to. convert_to_24 fb frm = Inr to \<and>
           length to = unat (width fb * height fb) \<and>
           (\<forall>i < length to.
              to ! i = rgb32_to_24 (le32 (frm ! (4 * i)) (frm ! (4 * i + 1))
                                        (frm ! (4 * i + 2)) (frm ! (4 * i + 3))))"
proof -
  from conv32_enough [OF assms(3)] obtain to
    where c: "conv32 (unat (width fb * height fb)) frm = Inr to" by blast
  then have "convert_to_24 fb frm = Inr to"
    using assms(1) by (simp add: convert_to_24_def)
  moreover have "length to = unat (width fb * height fb)"
    using c by (rule conv32_length)
  ultimately show ?thesis
    using conv32_nth [OF c] by simp
qed

theorem convert_to_24_other_depth_witness:
  "bpp fb_depth8 \<noteq> 16 \<and> bpp fb_depth8 \<noteq> 32 \<and>
   4 * unat (width fb_depth8 * height fb_depth8) \<le> length [0xFF, 0x80, 0x01, 0x7F :: 8 word] \<and>
   (\<exists>to. convert_to_24 fb_depth8 [0xFF, 0x80, 0x01, 0x7F] = Inr to \<and>
         length to = 1 \<and> to ! 0 = \<lparr> r = 1, g = 128, b = 255 \<rparr>)"
proof -
  have h1: "bpp fb_depth8 \<noteq> 16" and h2: "bpp fb_depth8 \<noteq> 32"
    and h3: "4 * unat (width fb_depth8 * height fb_depth8) \<le> length [0xFF, 0x80, 0x01, 0x7F :: 8 word]"
    by (simp_all add: fb_depth8_def)
  from convert_to_24_other_depth [OF h1 h2 h3] obtain to
    where c: "convert_to_24 fb_depth8 [0xFF, 0x80, 0x01, 0x7F] = Inr to"
      and l: "length to = unat (width fb_depth8 * height fb_depth8)"
      and n: "\<forall>i < length to. to ! i =
                rgb32_to_24 (le32 ([0xFF, 0x80, 0x01, 0x7F] ! (4 * i))
                                  ([0xFF, 0x80, 0x01, 0x7F] ! (4 * i + 1))
                                  ([0xFF, 0x80, 0x01, 0x7F] ! (4 * i + 2))
                                  ([0xFF, 0x80, 0x01, 0x7F] ! (4 * i + 3)))"
    by blast
  from l have l1: "length to = 1"
    by (simp add: fb_depth8_def)
  with n have "to ! 0 = \<lparr> r = 1, g = 128, b = 255 \<rparr>"
    by (simp add: le32_def rgb32_to_24_def)
  with c l1 h1 h2 h3 show ?thesis
    by blast
qed

section \<open>The image rows\<close>

lemma length_picture_bytes: "length (picture_bytes to) = 3 * length to"
  by (induction to) (simp_all add: picture_bytes_def)

lemma picture_bytes_take: "picture_bytes (take k to) = take (3 * k) (picture_bytes to)"
proof (induction to arbitrary: k)
  case (Cons p to)
  have s3: "\<And>n. 3 * Suc n = Suc (Suc (Suc (3 * n)))" by simp
  from Cons show ?case by (cases k) (simp_all add: picture_bytes_def s3 del: mult_Suc_right)
qed (simp add: picture_bytes_def)

lemma picture_bytes_drop: "picture_bytes (drop k to) = drop (3 * k) (picture_bytes to)"
proof (induction to arbitrary: k)
  case (Cons p to)
  have s3: "\<And>n. 3 * Suc n = Suc (Suc (Suc (3 * n)))" by simp
  from Cons show ?case by (cases k) (simp_all add: picture_bytes_def s3 del: mult_Suc_right)
qed (simp add: picture_bytes_def)

lemma row_offset_nowrap:
  assumes "i < unat (height fb)" and "unat (width fb) * unat (height fb) * 4 < 2 ^ 32"
  shows "row_offset fb i = i * (3 * unat (width fb))"
proof -
  have le: "i * unat (width fb) \<le> unat (width fb) * unat (height fb)"
    using assms(1) by (simp add: mult.commute)
  then have b: "i * unat (width fb) * 3 < 2 ^ 32"
    using assms(2) by linarith
  have "(of_nat i :: 32 word) * width fb * 3 = of_nat (i * unat (width fb) * 3)"
    by simp
  then have "row_offset fb i = (i * unat (width fb) * 3) mod 2 ^ 32"
    unfolding row_offset_def by (simp only: unat_of_nat) simp
  then show ?thesis using b by simp
qed

lemma concat_chunks_from:
  "concat (map (\<lambda>i. take n (drop (i * n) mem)) [k ..< k + h]) = take (h * n) (drop (k * n) mem)"
proof (induction h)
  case (Suc h)
  have "take (h * n + n) (drop (k * n) mem) =
          take (h * n) (drop (k * n) mem) @ take n (drop (h * n) (drop (k * n) mem))"
    by (rule take_add)
  moreover have "drop (h * n) (drop (k * n) mem) = drop ((k + h) * n) mem"
    by (simp add: add_mult_distrib add.commute)
  moreover have "Suc h * n = h * n + n"
    by simp
  ultimately have "take (Suc h * n) (drop (k * n) mem) =
          take (h * n) (drop (k * n) mem) @ take n (drop ((k + h) * n) mem)"
    by (simp only:)
  moreover have "[k ..< k + Suc h] = [k ..< k + h] @ [k + h]"
    by simp
  ultimately show ?case
    using Suc by (simp only: map_append concat_append list.map concat.simps append_Nil2)
qed simp

lemma concat_chunks:
  "length mem = h * n \<Longrightarrow> concat (map (\<lambda>i. take n (drop (i * n) mem)) [0 ..< h]) = mem"
  using concat_chunks_from [of n mem 0 h] by simp

section \<open>What a run can do\<close>

text \<open>
  Every way through \<open>save_png\<close>, by the events it adds to the trace: the ways that return
  without the image, the ways that do not return, and the one that writes the image.
\<close>

lemma save_png_events:
  assumes "save_png e fb prime_fd png_fn s = (res, s')"
  shows "\<exists>evs. trace s' = trace s @ evs \<and>
     ((\<exists>err. res = Inr err) \<and>
        evs \<in> {[], [Msg Unable_to_mmap_prime_buffer], [Seteuid (getuid e)],
                [Seteuid (getuid e), Fopen png_fn (getuid e), Fclose],
                [Seteuid (getuid e), Fopen png_fn (getuid e),
                 Png_set_IHDR (width fb) (height fb), Png_write_info, Fclose]} \<or>
      (\<exists>u. res = Inl u) \<and>
        evs \<in> {[Seteuid (getuid e), Fopen png_fn (getuid e),
                 Png_set_IHDR (width fb) (height fb)],
                [Seteuid (getuid e), Fopen png_fn (getuid e),
                 Png_set_IHDR (width fb) (height fb), Png_write_info],
                [Seteuid (getuid e), Fopen png_fn (getuid e),
                 Png_set_IHDR (width fb) (height fb), Png_write_info,
                 Png_write_image (row_pointers fb)],
                [Seteuid (getuid e), Fopen png_fn (getuid e),
                 Png_set_IHDR (width fb) (height fb), Png_write_info,
                 Png_write_image (row_pointers fb), Png_write_end]} \<or>
      res = Inr 0 \<and>
        evs = [Seteuid (getuid e), Fopen png_fn (getuid e),
               Png_set_IHDR (width fb) (height fb), Png_write_info,
               Png_write_image (row_pointers fb), Png_write_end, Fclose])"
  using assms
  by (auto simp: save_png_def Let_def emit_def seteuid_def
           split: if_splits sum.splits option.splits)

text \<open>What has happened when \<open>png_write_image\<close> is called.\<close>

lemma save_png_image:
  assumes "save_png e fb prime_fd png_fn s = (res, s')"
    and "Png_write_image ptrs \<in> set (drop (length (trace s)) (trace s'))"
  shows "ptrs = row_pointers fb \<and>
         Png_set_IHDR (width fb) (height fb) \<in> set (drop (length (trace s)) (trace s')) \<and>
         (\<exists>buffer to.
            mmap e (drop_bit 3 (bpp fb) * width fb * height fb) = Inr buffer \<and>
            convert_to_24 fb buffer = Inr to \<and>
            3 * length to \<le> unat (width fb * height fb * 4))"
  using assms
  by (auto simp: save_png_def Let_def emit_def seteuid_def
           split: if_splits sum.splits option.splits)

text \<open>The scan only opens and closes descriptors and reports a failing \<open>open\<close>.\<close>

lemma scan_cards_trace:
  assumes "scan_cards e idx s = Some y"
  shows "euid (snd y) = euid s \<and>
     (trace (snd y) = trace s \<or> trace (snd y) = trace s @ [Msg Could_not_open_device])"
proof (rule scan_cards.raw_induct
    [where P = "\<lambda>e idx s y. euid (snd y) = euid s \<and>
       (trace (snd y) = trace s \<or> trace (snd y) = trace s @ [Msg Could_not_open_device])",
     OF _ assms], goal_cases)
  case (1 scan e idx s y)
  show ?case
  proof (cases "open_card e idx")
    case False
    with 1(2) show ?thesis by (auto simp: emit_def)
  next
    case True
    note opened = this
    show ?thesis
    proof (cases "0 \<le> fst (drmGetCap e idx) \<and> snd (drmGetCap e idx) \<noteq> 0")
      case True
      with opened 1(2) show ?thesis by (auto simp: open_fd_def)
    next
      case False
      with opened 1(2)
      have "scan e (idx + 1) (close_fd (next_fd s) (open_fd (Card idx) s)) = Some y"
        by (simp split: if_splits)
      from 1(1) [OF this] show ?thesis
        by (simp add: close_fd_def open_fd_def)
    qed
  qed
qed

lemma device_locator_trace:
  assumes "device_locator e s = Some (res, s1)"
  shows "euid s1 = euid s \<and>
     (\<exists>evs. trace s1 = trace s @ evs \<and> set evs \<subseteq> {Msg Could_not_open_device})"
proof -
  have "\<And>idx y. scan_cards e idx s = Some y \<Longrightarrow>
          euid (snd y) = euid s \<and>
          (trace (snd y) = trace s \<or> trace (snd y) = trace s @ [Msg Could_not_open_device])"
    by (rule scan_cards_trace)
  then show ?thesis
    using assms
    by (fastforce simp: device_locator_def emit_def open_fd_def
          split: option.splits prod.splits if_splits)
qed

lemma filter_msgs_privilege: "set evs \<subseteq> {Msg m} \<Longrightarrow> filter privilege_event evs = []"
  by (induction evs) auto

lemma filter_msgs_sink: "set evs \<subseteq> {Msg m} \<Longrightarrow> filter sink_event evs = []"
  by (induction evs) auto

lemma not_in_filtered: "filter P xs = l \<Longrightarrow> x \<notin> set l \<Longrightarrow> P x \<Longrightarrow> x \<notin> set xs"
  by auto

lemma save_png_privilege:
  assumes "save_png e fb prime_fd png_fn s = (res, s')"
  shows "\<exists>evs. trace s' = trace s @ evs \<and>
           prefix (filter privilege_event evs) [Seteuid (getuid e), Fopen png_fn (getuid e)]"
  using save_png_events [OF assms] by auto

lemma grab_privilege:
  assumes "grab e drm_fd fb_id s = (out, s')"
  shows "\<exists>evs fd. trace s' = trace s @ evs \<and>
           prefix (filter privilege_event evs)
             [Prime_fd fd, Seteuid (getuid e), Fopen (argv e ! 1) (getuid e)]"
  using assms
  by (auto simp: grab_def Let_def emit_def open_fd_def close_fd_def
           split: option.splits if_splits prod.splits sum.splits
           dest!: save_png_privilege)

lemma output_discovery_privilege:
  assumes "output_discovery e drm_fd s = (out, s')"
  shows "\<exists>evs fd. trace s' = trace s @ evs \<and>
           prefix (filter privilege_event evs)
             [Prime_fd fd, Seteuid (getuid e), Fopen (argv e ! 1) (getuid e)]"
  using assms
  by (auto simp: output_discovery_def emit_def close_fd_def
           split: option.splits if_splits sum.splits
           dest!: grab_privilege)

text \<open>
  The same ways by what reaches the destination file: a call that returns an error has
  written at most the header and has closed the file; a call that does not return has not
  closed it.
\<close>

lemma save_png_sink:
  assumes "save_png e fb prime_fd png_fn s = (res, s')"
  shows "\<exists>evs. trace s' = trace s @ evs \<and>
           (res = Inr 0 \<or>
            (\<exists>err. res = Inr err) \<and>
              filter sink_event evs \<in>
                {[], [Fopen png_fn (getuid e), Fclose],
                 [Fopen png_fn (getuid e), Png_set_IHDR (width fb) (height fb), Png_write_info,
                  Fclose]} \<or>
            (\<exists>u. res = Inl u) \<and> Fclose \<notin> set evs)"
  using save_png_events [OF assms] by auto

lemma grab_sink:
  assumes "grab e drm_fd fb_id s = (out, s')"
  shows "\<exists>evs. trace s' = trace s @ evs \<and>
           (out = Exit EXIT_SUCCESS \<or>
            out = Exit EXIT_FAILURE \<and>
              (\<exists>w h. filter sink_event evs \<in>
                {[], [Fopen (argv e ! 1) (getuid e), Fclose],
                 [Fopen (argv e ! 1) (getuid e), Png_set_IHDR w h, Png_write_info, Fclose]}) \<or>
            (\<exists>u. out = Undefined u) \<and> Fclose \<notin> set evs)"
  using assms
  by (auto simp: grab_def Let_def emit_def open_fd_def close_fd_def
           split: option.splits if_splits prod.splits sum.splits
           dest!: save_png_sink)

lemma output_discovery_sink:
  assumes "output_discovery e drm_fd s = (out, s')"
  shows "\<exists>evs. trace s' = trace s @ evs \<and>
           (out = Exit EXIT_SUCCESS \<or>
            out = Exit EXIT_FAILURE \<and>
              (\<exists>w h. filter sink_event evs \<in>
                {[], [Fopen (argv e ! 1) (getuid e), Fclose],
                 [Fopen (argv e ! 1) (getuid e), Png_set_IHDR w h, Png_write_info, Fclose]}) \<or>
            (\<exists>u. out = Undefined u) \<and> Fclose \<notin> set evs)"
  using assms
  by (auto simp: output_discovery_def emit_def close_fd_def
           split: option.splits if_splits sum.splits
           dest!: grab_sink)

lemma find_fb_all_zero:
  "\<forall>p \<in> set crtcs. \<exists>crtc. drmModeGetCrtc e p = Some crtc \<and> buffer_id crtc = 0 \<Longrightarrow>
   find_fb e crtcs = Inr None"
  by (induction crtcs) auto

lemma find_fb_first:
  "\<forall>p \<in> set pre. \<exists>crtc. drmModeGetCrtc e p = Some crtc \<and> buffer_id crtc = 0 \<Longrightarrow>
   drmModeGetCrtc e c = Some crtc \<Longrightarrow> buffer_id crtc \<noteq> 0 \<Longrightarrow>
   find_fb e (pre @ c # post) = Inr (Some (buffer_id crtc))"
  by (induction pre) auto

section \<open>The concrete runs, evaluated\<close>

lemma env_ok_fields:
  "argv env_ok = [''kmsgrab'', ''out.png'']" "getuid env_ok = 1000" "start_euid env_ok = 0"
  "open_again env_ok" "set_atomic_cap env_ok = 0" "set_universal_planes_cap env_ok = 0"
  "drmModeGetResources env_ok = Some [10, 11]"
  "drmModeGetCrtc env_ok 10 = Some \<lparr> buffer_id = 0 \<rparr>"
  "drmModeGetCrtc env_ok 11 = Some \<lparr> buffer_id = 42 \<rparr>"
  "drmModeGetFB env_ok 42 = Some fb_2x2" "drmPrimeHandleToFD env_ok = 0"
  "malloc_picture env_ok" "page_size env_ok = 4096" "mmap_prime env_ok = Inr buffer_object"
  "fopen_png env_ok = None" "png_create_write_struct env_ok = None"
  "png_create_info_struct env_ok = None" "\<not> png_set_IHDR_error env_ok"
  "\<not> png_write_info_error env_ok" "malloc_row_pointers env_ok"
  "\<not> png_write_image_error env_ok" "\<not> png_write_end_error env_ok"
  by (simp_all add: env_ok_def)

lemma device_locator_like_env_ok:
  assumes "open_card e = open_card env_ok" and "drmGetCap e = drmGetCap env_ok"
    and "open_again e" and "start_euid e = 0"
  shows "device_locator e (proc0 e) = Some (Some 5, located)"
proof -
  have "scan_cards e 0 (proc0 e) =
          Some (Some 1, \<lparr> fds = [(4, Card 1)], next_fd = 5, euid = 0, trace = [] \<rparr>)"
    apply (subst scan_cards.simps)
    apply (subst scan_cards.simps)
    apply (simp add: assms env_ok_def proc0_def open_fd_def close_fd_def)
    done
  then show ?thesis
    by (simp add: device_locator_def assms open_fd_def located_def)
qed

lemma length_buffer_object: "length buffer_object = 4096"
  by (simp add: buffer_object_def)

text \<open>A request of at most one page maps the whole buffer object, which is one page.\<close>

lemma mmap_one_page:
  assumes "mmap_prime e = Inr buffer_object" and "page_size e = 4096"
    and "len \<noteq> 0" and "unat len \<le> 4096"
  shows "mmap e len = Inr buffer_object"
proof -
  have "0 < unat len"
    using assms(3) by (simp add: unat_gt_0)
  with assms(4) have "(unat len + 4096 - 1) div 4096 = 1"
    by simp
  then have "mapped_length e (unat len) = 4096"
    by (simp add: mapped_length_def assms(2))
  then show ?thesis
    by (simp add: mmap_def assms length_buffer_object)
qed

lemma convert_to_24_2x2:
  "convert_to_24 fb_2x2 buffer_object =
     Inr [\<lparr>r = 0, g = 0, b = 255\<rparr>, \<lparr>r = 0, g = 255, b = 0\<rparr>,
          \<lparr>r = 255, g = 0, b = 0\<rparr>, \<lparr>r = 255, g = 255, b = 255\<rparr>]"
proof -
  have len: "unat (width fb_2x2 * height fb_2x2) = Suc (Suc (Suc (Suc 0)))"
    by (simp add: fb_2x2_def)
  have depth: "bpp fb_2x2 = 32"
    by (simp add: fb_2x2_def)
  show ?thesis
    by (simp add: convert_to_24_def len depth buffer_object_def le32_def rgb32_to_24_def)
qed

lemma row_pointers_2x2: "row_pointers fb_2x2 = [0, 6]"
proof -
  have "unat (height fb_2x2) = Suc (Suc 0)"
    by (simp add: fb_2x2_def)
  then have "[0 ..< unat (height fb_2x2)] = [0, Suc 0]"
    by (simp only: upt_Suc upt_0 le0 if_True append_Nil append_Cons)
  then show ?thesis
    by (simp add: row_pointers_def row_offset_def fb_2x2_def)
qed

lemma mmap_2x2:
  assumes "mmap_prime e = Inr buffer_object" and "page_size e = 4096"
  shows "mmap e (drop_bit 3 (bpp fb_2x2) * width fb_2x2 * height fb_2x2) = Inr buffer_object"
  by (rule mmap_one_page [OF assms]) (simp_all add: fb_2x2_def)

lemma fb_2x2_fields:
  "width fb_2x2 = 2" "height fb_2x2 = 2"
  by (simp_all add: fb_2x2_def)

lemma fb_2x2_alloc: "unat (width fb_2x2 * height fb_2x2 * 4) = 16"
  by (simp add: fb_2x2_def)

lemma save_png_2x2:
  assumes "malloc_picture e" and "mmap_prime e = Inr buffer_object" and "page_size e = 4096"
    and "fopen_png e = None"
    and "png_create_write_struct e = None" and "png_create_info_struct e = None"
    and "\<not> png_set_IHDR_error e" and "\<not> png_write_info_error e"
    and "malloc_row_pointers e"
    and "\<not> png_write_image_error e" and "\<not> png_write_end_error e"
  shows "save_png e fb_2x2 prime_fd png_fn s =
           (Inr 0,
            s\<lparr> euid := getuid e,
               trace := trace s @
                 [Seteuid (getuid e), Fopen png_fn (getuid e), Png_set_IHDR 2 2, Png_write_info,
                  Png_write_image [0, 6], Png_write_end, Fclose] \<rparr>)"
  unfolding save_png_def mmap_2x2 [OF assms(2,3)]
  by (simp add: assms convert_to_24_2x2 row_pointers_2x2 fb_2x2_alloc Let_def seteuid_def
        emit_def)
    (simp add: fb_2x2_fields)

lemma save_png_2x2_rows_fail:
  assumes "malloc_picture e" and "mmap_prime e = Inr buffer_object" and "page_size e = 4096"
    and "fopen_png e = None"
    and "png_create_write_struct e = None" and "png_create_info_struct e = None"
    and "\<not> png_set_IHDR_error e" and "\<not> png_write_info_error e"
    and "\<not> malloc_row_pointers e"
  shows "save_png e fb_2x2 prime_fd png_fn s =
           (Inr (- ENOMEM),
            s\<lparr> euid := getuid e,
               trace := trace s @
                 [Seteuid (getuid e), Fopen png_fn (getuid e), Png_set_IHDR 2 2, Png_write_info,
                  Fclose] \<rparr>)"
  unfolding save_png_def mmap_2x2 [OF assms(2,3)]
  by (simp add: assms convert_to_24_2x2 fb_2x2_alloc Let_def seteuid_def emit_def)
    (simp add: fb_2x2_fields)

lemma save_png_2x2_png_fail:
  assumes "malloc_picture e" and "mmap_prime e = Inr buffer_object" and "page_size e = 4096"
    and "fopen_png e = None"
    and "png_create_write_struct e = Some errno"
  shows "save_png e fb_2x2 prime_fd png_fn s =
           (Inr (- errno),
            s\<lparr> euid := getuid e,
               trace := trace s @ [Seteuid (getuid e), Fopen png_fn (getuid e), Fclose] \<rparr>)"
  unfolding save_png_def mmap_2x2 [OF assms(2,3)]
  by (simp add: assms Let_def seteuid_def emit_def)

text \<open>
  A framebuffer of one pixel at 24 bits per pixel: three bytes are requested from \<open>mmap\<close>,
  the loop reads four, which the page holds, and the image is written.
\<close>

lemma save_png_depth24:
  "save_png env_ok fb_depth24 6 ''out.png'' (proc0 env_ok) =
     (Inr 0,
      \<lparr> fds = [], next_fd = 3, euid = 1000,
        trace = [Seteuid 1000, Fopen ''out.png'' 1000, Png_set_IHDR 1 1, Png_write_info,
                 Png_write_image [0], Png_write_end, Fclose] \<rparr>)"
proof -
  have m: "mmap env_ok (drop_bit 3 (bpp fb_depth24) * width fb_depth24 * height fb_depth24) =
             Inr buffer_object"
    by (rule mmap_one_page) (simp_all add: env_ok_fields fb_depth24_def)
  have c: "convert_to_24 fb_depth24 buffer_object = Inr [\<lparr>r = 0, g = 0, b = 255\<rparr>]"
    by (simp add: convert_to_24_def fb_depth24_def buffer_object_def le32_def rgb32_to_24_def)
  have alloc: "unat (width fb_depth24 * height fb_depth24 * 4) = 4"
    by (simp add: fb_depth24_def)
  have ptrs: "row_pointers fb_depth24 = [0]"
    by (simp add: row_pointers_def row_offset_def fb_depth24_def)
  have dims: "width fb_depth24 = 1" "height fb_depth24 = 1"
    by (simp_all add: fb_depth24_def)
  show ?thesis
    unfolding save_png_def m
    by (simp add: env_ok_fields c alloc ptrs Let_def seteuid_def emit_def proc0_def)
      (simp add: dims)
qed

lemma main_env_ok:
  "main env_ok = Some (Exit EXIT_SUCCESS,
     \<lparr> fds = [(4, Card 1)], next_fd = 7, euid = 1000,
       trace = [Prime_fd 6, Seteuid 1000, Fopen ''out.png'' 1000, Png_set_IHDR 2 2,
                Png_write_info, Png_write_image [0, 6], Png_write_end, Fclose] \<rparr>)"
proof -
  have loc: "device_locator env_ok (proc0 env_ok) = Some (Some 5, located)"
    by (rule device_locator_like_env_ok) (simp_all add: env_ok_fields)
  show ?thesis
    unfolding main_def loc
    by (simp add: output_discovery_def grab_def env_ok_fields save_png_2x2 located_def
          Let_def emit_def open_fd_def close_fd_def)
qed

lemma main_env_rows_fail:
  "main env_rows_fail = Some (Exit EXIT_FAILURE,
     \<lparr> fds = [(4, Card 1)], next_fd = 7, euid = 1000,
       trace = [Prime_fd 6, Seteuid 1000, Fopen ''out.png'' 1000, Png_set_IHDR 2 2,
                Png_write_info, Fclose, Msg (Failed_to_take_screenshot 12)] \<rparr>)"
proof -
  have loc: "device_locator env_rows_fail (proc0 env_rows_fail) = Some (Some 5, located)"
    by (rule device_locator_like_env_ok) (simp_all add: env_rows_fail_def env_ok_fields)
  show ?thesis
    unfolding main_def loc
    by (simp add: output_discovery_def grab_def env_rows_fail_def env_ok_fields
          save_png_2x2_rows_fail located_def ENOMEM_def
          Let_def emit_def open_fd_def close_fd_def)
qed

lemma main_env_png_fail:
  "main env_png_fail = Some (Exit EXIT_FAILURE,
     \<lparr> fds = [(4, Card 1)], next_fd = 7, euid = 1000,
       trace = [Prime_fd 6, Seteuid 1000, Fopen ''out.png'' 1000, Fclose,
                Msg (Failed_to_take_screenshot 12)] \<rparr>)"
proof -
  have loc: "device_locator env_png_fail (proc0 env_png_fail) = Some (Some 5, located)"
    by (rule device_locator_like_env_ok) (simp_all add: env_png_fail_def env_ok_fields)
  show ?thesis
    unfolding main_def loc
    by (simp add: output_discovery_def grab_def env_png_fail_def env_ok_fields
          save_png_2x2_png_fail [where errno = 12] located_def
          Let_def emit_def open_fd_def close_fd_def)
qed

section \<open>Output discovery\<close>

text \<open>
  C4. Once the device is located, the capabilities are set and the resources are read,
  the CRTCs are examined in the order of the list. If every CRTC before \<open>c\<close> answers with a
  framebuffer identifier of zero and \<open>c\<close> answers with a non-zero one, that identifier is
  selected and the run goes on with it, whatever follows \<open>c\<close> in the list. If every CRTC
  answers zero, nothing is selected: the run reports "No CRTC found", exits with failure,
  and its trace holds no event of the image sink.
\<close>

theorem first_bound_framebuffer:
  assumes "2 \<le> length (argv e)"
    and "device_locator e (proc0 e) = Some (Some drm_fd, s)"
    and "set_atomic_cap e = 0" and "set_universal_planes_cap e = 0"
    and "drmModeGetResources e = Some crtcs"
  shows "(crtcs = pre @ c # post \<and>
          (\<forall>p \<in> set pre. \<exists>crtc. drmModeGetCrtc e p = Some crtc \<and> buffer_id crtc = 0) \<and>
          drmModeGetCrtc e c = Some crtc \<and> buffer_id crtc \<noteq> 0 \<longrightarrow>
            find_fb e crtcs = Inr (Some (buffer_id crtc)) \<and>
            main e = Some (grab e drm_fd (buffer_id crtc) s)) \<and>
         ((\<forall>p \<in> set crtcs. \<exists>crtc. drmModeGetCrtc e p = Some crtc \<and> buffer_id crtc = 0) \<longrightarrow>
            find_fb e crtcs = Inr None \<and>
            main e = Some (Exit EXIT_FAILURE, close_fd drm_fd (emit (Msg No_CRTC_found) s)) \<and>
            filter sink_event (trace (close_fd drm_fd (emit (Msg No_CRTC_found) s))) = [])"
proof (intro conjI impI)
  assume h: "crtcs = pre @ c # post \<and>
          (\<forall>p \<in> set pre. \<exists>crtc. drmModeGetCrtc e p = Some crtc \<and> buffer_id crtc = 0) \<and>
          drmModeGetCrtc e c = Some crtc \<and> buffer_id crtc \<noteq> 0"
  then show f: "find_fb e crtcs = Inr (Some (buffer_id crtc))"
    using find_fb_first [of pre e c crtc post] by simp
  show "main e = Some (grab e drm_fd (buffer_id crtc) s)"
    using assms f by (simp add: main_def output_discovery_def)
next
  assume h: "\<forall>p \<in> set crtcs. \<exists>crtc. drmModeGetCrtc e p = Some crtc \<and> buffer_id crtc = 0"
  then show f: "find_fb e crtcs = Inr None"
    by (rule find_fb_all_zero)
  show "main e = Some (Exit EXIT_FAILURE, close_fd drm_fd (emit (Msg No_CRTC_found) s))"
    using assms f by (simp add: main_def output_discovery_def)
  from device_locator_trace [OF assms(2)] obtain evs
    where "trace s = evs" and "set evs \<subseteq> {Msg Could_not_open_device}"
    by (auto simp: proc0_def)
  then have "filter sink_event (trace s) = []"
    using filter_msgs_sink by blast
  then show "filter sink_event (trace (close_fd drm_fd (emit (Msg No_CRTC_found) s))) = []"
    by (simp add: close_fd_def emit_def)
qed

theorem first_bound_framebuffer_witness:
  "device_locator env_ok (proc0 env_ok) = Some (Some 5, located) \<and>
   drmModeGetResources env_ok = Some ([10] @ 11 # []) \<and>
   find_fb env_ok [10, 11] = Inr (Some 42) \<and>
   main env_ok = Some (grab env_ok 5 42 located) \<and>
   device_locator env_idle (proc0 env_idle) = Some (Some 5, located) \<and>
   find_fb env_idle [10, 11] = Inr None \<and>
   main env_idle = Some (Exit EXIT_FAILURE, close_fd 5 (emit (Msg No_CRTC_found) located)) \<and>
   filter sink_event (trace (close_fd 5 (emit (Msg No_CRTC_found) located))) = []"
proof -
  have loc: "device_locator env_ok (proc0 env_ok) = Some (Some 5, located)"
    by (rule device_locator_like_env_ok) (simp_all add: env_ok_fields)
  have args: "2 \<le> length (argv env_ok)"
    and caps: "set_atomic_cap env_ok = 0" "set_universal_planes_cap env_ok = 0"
    and res: "drmModeGetResources env_ok = Some [10, 11]"
    by (simp_all add: env_ok_fields)
  have bound: "[10, 11] = [10] @ 11 # [] \<and>
      (\<forall>p \<in> set [10]. \<exists>crtc. drmModeGetCrtc env_ok p = Some crtc \<and> buffer_id crtc = 0) \<and>
      drmModeGetCrtc env_ok 11 = Some \<lparr> buffer_id = 42 \<rparr> \<and>
      buffer_id \<lparr> buffer_id = 42 \<rparr> \<noteq> (0 :: 32 word)"
    by (simp add: env_ok_fields)
  have loc': "device_locator env_idle (proc0 env_idle) = Some (Some 5, located)"
    by (rule device_locator_like_env_ok) (simp_all add: env_idle_def env_ok_fields)
  have args': "2 \<le> length (argv env_idle)"
    and caps': "set_atomic_cap env_idle = 0" "set_universal_planes_cap env_idle = 0"
    and res': "drmModeGetResources env_idle = Some [10, 11]"
    by (simp_all add: env_idle_def env_ok_fields)
  have idle: "\<forall>p \<in> set [10, 11].
      \<exists>crtc. drmModeGetCrtc env_idle p = Some crtc \<and> buffer_id crtc = 0"
    by (simp add: env_idle_def)
  from first_bound_framebuffer [OF args loc caps res, of "[10]" 11 "[]" "\<lparr> buffer_id = 42 \<rparr>"]
    bound
  have "find_fb env_ok [10, 11] = Inr (Some 42) \<and> main env_ok = Some (grab env_ok 5 42 located)"
    by simp
  moreover
  from first_bound_framebuffer [OF args' loc' caps' res'] idle
  have "find_fb env_idle [10, 11] = Inr None \<and>
        main env_idle = Some (Exit EXIT_FAILURE, close_fd 5 (emit (Msg No_CRTC_found) located)) \<and>
        filter sink_event (trace (close_fd 5 (emit (Msg No_CRTC_found) located))) = []"
    by blast
  ultimately show ?thesis
    using loc loc' res by simp
qed

text \<open>
  C5. In a run where the CRTC query returns no state (\<open>drmModeGetCrtc\<close> returns \<open>NULL\<close>),
  \<open>main\<close> does not report an error: line 206 reads \<open>crtc->buffer_id\<close> through the null
  pointer. Nothing is printed and no descriptor is closed.
\<close>

theorem missing_crtc_is_dereferenced:
  "main env_null_crtc = Some (Undefined Null_dereference, located)"
proof -
  have loc: "device_locator env_null_crtc (proc0 env_null_crtc) = Some (Some 5, located)"
    by (rule device_locator_like_env_ok) (simp_all add: env_null_crtc_def env_ok_fields)
  show ?thesis
    unfolding main_def loc
    by (simp add: output_discovery_def env_null_crtc_def env_ok_fields)
qed

section \<open>Device handles\<close>

text \<open>
  C6. In the run \<open>env_ok\<close> the scan opens \<open>card0\<close> as descriptor 3 and closes it, opens
  \<open>card1\<close> as descriptor 4 and stops there; line 182 then opens \<open>card1\<close> again as
  descriptor 5. After the device is located two descriptors of \<open>card1\<close> are open, and when
  \<open>main\<close> returns descriptor 4 is still open: only descriptor 5 is closed at line 248.
\<close>

theorem device_locator_keeps_two_handles:
  "device_locator env_ok (proc0 env_ok) =
     Some (Some 5, \<lparr> fds = [(4, Card 1), (5, Card 1)], next_fd = 6, euid = 0, trace = [] \<rparr>) \<and>
   map_option (\<lambda>run. fds (snd run)) (main env_ok) = Some [(4, Card 1)]"
proof -
  have "device_locator env_ok (proc0 env_ok) = Some (Some 5, located)"
    by (rule device_locator_like_env_ok) (simp_all add: env_ok_fields)
  then show ?thesis
    by (simp add: located_def main_env_ok)
qed

section \<open>Privileges\<close>

text \<open>
  C7. In every run that returns, the events that matter to the privileges are, in order,
  a beginning of: the export descriptor is acquired; the effective user id is set to the
  real user id of the invoking user; the output path \<open>argv[1]\<close> is opened, under that
  user id. So the drop never comes before the export, and the output file is never
  opened before the drop or under another effective user id.
\<close>

theorem privileges_dropped_before_fopen:
  assumes "main e = Some (out, s)"
  shows "\<exists>fd. prefix (filter privilege_event (trace s))
                 [Prime_fd fd, Seteuid (getuid e), Fopen (argv e ! 1) (getuid e)]"
proof (cases "length (argv e) < 2")
  case True
  with assms show ?thesis by (auto simp: main_def emit_def proc0_def)
next
  case False
  with assms obtain res s1 where loc: "device_locator e (proc0 e) = Some (res, s1)"
    by (auto simp: main_def split: option.splits)
  from device_locator_trace [OF loc] obtain evs0
    where t1: "trace s1 = evs0" and m: "set evs0 \<subseteq> {Msg Could_not_open_device}"
    by (auto simp: proc0_def)
  have f1: "filter privilege_event (trace s1) = []"
    using filter_msgs_privilege [OF m] t1 by simp
  show ?thesis
  proof (cases res)
    case None
    with assms False loc f1 show ?thesis by (auto simp: main_def)
  next
    case (Some drm_fd)
    with assms False loc have "output_discovery e drm_fd s1 = (out, s)"
      by (simp add: main_def)
    from output_discovery_privilege [OF this] f1 show ?thesis by auto
  qed
qed

theorem privileges_dropped_before_fopen_witness:
  "map_option fst (main env_ok) = Some (Exit EXIT_SUCCESS) \<and>
   map_option (\<lambda>run. filter privilege_event (trace (snd run))) (main env_ok) =
     Some [Prime_fd 6, Seteuid 1000, Fopen ''out.png'' 1000] \<and>
   (\<exists>fd. prefix [Prime_fd 6, Seteuid 1000, Fopen ''out.png'' 1000]
            [Prime_fd fd, Seteuid (getuid env_ok), Fopen (argv env_ok ! 1) (getuid env_ok)])"
  using privileges_dropped_before_fopen [OF main_env_ok]
  by (simp add: main_env_ok)

section \<open>Failures and the destination file\<close>

text \<open>
  C8, as the claim states it, fails. In the run \<open>env_rows_fail\<close> the allocation of the row
  table (line 121) fails: the destination file has been opened (created or truncated) and
  the image header written, the conversion has run, and \<open>main\<close> exits with failure. The
  file stays as it is: nothing removes it.
\<close>

theorem header_written_then_failure:
  "map_option fst (main env_rows_fail) = Some (Exit EXIT_FAILURE) \<and>
   map_option (trace \<circ> snd) (main env_rows_fail) =
     Some [Prime_fd 6, Seteuid 1000, Fopen ''out.png'' 1000, Png_set_IHDR 2 2, Png_write_info,
           Fclose, Msg (Failed_to_take_screenshot 12)]"
  by (simp add: main_env_rows_fail)

text \<open>
  C8, amended. A run that does not exit with success either returns failure or does not
  return. In every run that returns failure, \<open>png_write_image\<close> and \<open>png_write_end\<close> have
  not been called, so no image row and no end marker is in the destination: the file is
  never opened, or it is opened (created or truncated) and closed with nothing written, or
  it is opened, the image header is written and it is closed. In every run that does not
  return (undefined behaviour, or an error inside libpng, for which the program has no
  handler) the program has not closed the file, whatever has been written to it.
\<close>

theorem no_image_data_on_failure:
  assumes "main e = Some (out, s)" and "out \<noteq> Exit EXIT_SUCCESS"
  shows "out = Exit EXIT_FAILURE \<and>
           (\<exists>w h. filter sink_event (trace s) \<in>
              {[], [Fopen (argv e ! 1) (getuid e), Fclose],
               [Fopen (argv e ! 1) (getuid e), Png_set_IHDR w h, Png_write_info, Fclose]}) \<and>
           Png_write_image ptrs \<notin> set (trace s) \<and> Png_write_end \<notin> set (trace s) \<or>
         (\<exists>u. out = Undefined u) \<and> Fclose \<notin> set (trace s)"
proof -
  have shape: "out = Exit EXIT_FAILURE \<and>
           (\<exists>w h. filter sink_event (trace s) \<in>
              {[], [Fopen (argv e ! 1) (getuid e), Fclose],
               [Fopen (argv e ! 1) (getuid e), Png_set_IHDR w h, Png_write_info, Fclose]}) \<or>
         (\<exists>u. out = Undefined u) \<and> Fclose \<notin> set (trace s)"
  proof (cases "length (argv e) < 2")
    case True
    with assms show ?thesis by (auto simp: main_def emit_def proc0_def)
  next
    case False
    with assms obtain res s1 where loc: "device_locator e (proc0 e) = Some (res, s1)"
      by (auto simp: main_def split: option.splits)
    from device_locator_trace [OF loc] obtain evs0
      where t1: "trace s1 = evs0" and m: "set evs0 \<subseteq> {Msg Could_not_open_device}"
      by (auto simp: proc0_def)
    have f1: "filter sink_event (trace s1) = []"
      using filter_msgs_sink [OF m] t1 by simp
    have c1: "Fclose \<notin> set (trace s1)"
      using m t1 by auto
    show ?thesis
    proof (cases res)
      case None
      with assms False loc f1 show ?thesis by (auto simp: main_def)
    next
      case (Some drm_fd)
      with assms False loc have "output_discovery e drm_fd s1 = (out, s)"
        by (simp add: main_def)
      from output_discovery_sink [OF this] f1 c1 assms(2) show ?thesis by auto
    qed
  qed
  show ?thesis
  proof (cases "\<exists>u. out = Undefined u")
    case True
    with shape show ?thesis by auto
  next
    case False
    with shape obtain l w h where l: "filter sink_event (trace s) = l"
      and "l \<in> {[], [Fopen (argv e ! 1) (getuid e), Fclose],
                 [Fopen (argv e ! 1) (getuid e), Png_set_IHDR w h, Png_write_info, Fclose]}"
      by blast
    then have "Png_write_image ptrs \<notin> set l" "Png_write_end \<notin> set l"
      by auto
    then have "Png_write_image ptrs \<notin> set (trace s)" "Png_write_end \<notin> set (trace s)"
      using not_in_filtered [OF l] by simp_all
    with shape False show ?thesis by simp
  qed
qed

theorem no_image_data_on_failure_witness:
  "map_option fst (main env_png_fail) = Some (Exit EXIT_FAILURE) \<and>
   Exit EXIT_FAILURE \<noteq> Exit EXIT_SUCCESS \<and>
   map_option (\<lambda>run. filter sink_event (trace (snd run))) (main env_png_fail) =
     Some [Fopen ''out.png'' 1000, Fclose] \<and>
   map_option (\<lambda>run. Png_write_end \<in> set (trace (snd run))) (main env_png_fail) = Some False"
proof -
  have ne: "Exit EXIT_FAILURE \<noteq> Exit EXIT_SUCCESS"
    by (simp add: EXIT_FAILURE_def EXIT_SUCCESS_def)
  from no_image_data_on_failure [OF main_env_png_fail ne, of "[]"] ne show ?thesis
    by (simp add: main_env_png_fail)
qed

section \<open>The image handed to the sink\<close>

text \<open>
  Where no size the program computes wraps, that is for \<open>width * height * 4 < 2 ^ 32\<close>,
  the image is laid out as the header says. Whenever \<open>save_png\<close> calls \<open>png_write_image\<close>:
  the header carries the framebuffer's width and height; the converted data is
  \<open>width * height\<close> pixels, \<open>width * height * 3\<close> bytes; there are \<open>height\<close> row pointers,
  the pointer of row \<open>i\<close> at offset \<open>i * width * 3\<close>; the row read there is the bytes of the
  pixels \<open>i * width\<close> to \<open>(i + 1) * width - 1\<close>; and the rows one after the other are the
  whole converted data, with nothing between them.
\<close>

lemma save_png_image_layout:
  assumes nowrap: "unat (width fb) * unat (height fb) * 4 < 2 ^ 32"
    and run: "save_png e fb prime_fd png_fn s = (res, s')"
    and img: "Png_write_image ptrs \<in> set (drop (length (trace s)) (trace s'))"
  shows "\<exists>buffer to.
           mmap e (drop_bit 3 (bpp fb) * width fb * height fb) = Inr buffer \<and>
           convert_to_24 fb buffer = Inr to \<and>
           length to = unat (width fb) * unat (height fb) \<and>
           length (picture_bytes to) = unat (width fb) * unat (height fb) * 3 \<and>
           Png_set_IHDR (width fb) (height fb) \<in> set (drop (length (trace s)) (trace s')) \<and>
           length ptrs = unat (height fb) \<and>
           (\<forall>i < unat (height fb).
              ptrs ! i = i * (unat (width fb) * 3) \<and>
              image_rows (picture_bytes to) (unat (width fb) * 3) ptrs ! i =
                picture_bytes (take (unat (width fb)) (drop (i * unat (width fb)) to))) \<and>
           concat (image_rows (picture_bytes to) (unat (width fb) * 3) ptrs) = picture_bytes to"
proof -
  let ?w = "unat (width fb)" and ?h = "unat (height fb)"
  from save_png_image [OF run img] obtain buffer to
    where p: "ptrs = row_pointers fb"
      and hdr: "Png_set_IHDR (width fb) (height fb) \<in> set (drop (length (trace s)) (trace s'))"
      and m: "mmap e (drop_bit 3 (bpp fb) * width fb * height fb) = Inr buffer"
      and c: "convert_to_24 fb buffer = Inr to"
    by blast
  have "?w * ?h \<le> ?w * ?h * 4"
    by simp
  then have wh: "?w * ?h < 2 ^ 32"
    using nowrap by (rule le_less_trans)
  have "length to = unat (width fb * height fb)"
    using c conv16_length conv32_length
    by (auto simp: convert_to_24_def Let_def split: if_splits)
  then have len: "length to = ?w * ?h"
    using wh by (simp add: unat_mult_nowrap)
  then have lenb: "length (picture_bytes to) = ?h * (?w * 3)"
    by (simp add: length_picture_bytes)
  have "map (row_offset fb) [0 ..< ?h] = map (\<lambda>i. i * (?w * 3)) [0 ..< ?h]"
    using row_offset_nowrap [OF _ nowrap] by (intro map_cong) (simp_all add: mult.commute)
  then have ptrs: "ptrs = map (\<lambda>i. i * (?w * 3)) [0 ..< ?h]"
    using p by (simp add: row_pointers_def)
  then have rows: "image_rows (picture_bytes to) (?w * 3) ptrs =
      map (\<lambda>i. take (?w * 3) (drop (i * (?w * 3)) (picture_bytes to))) [0 ..< ?h]"
    by (simp add: image_rows_def comp_def)
  have cat: "concat (image_rows (picture_bytes to) (?w * 3) ptrs) = picture_bytes to"
    unfolding rows using lenb by (rule concat_chunks)
  have nth: "\<forall>i < ?h.
      ptrs ! i = i * (?w * 3) \<and>
      image_rows (picture_bytes to) (?w * 3) ptrs ! i = picture_bytes (take ?w (drop (i * ?w) to))"
    unfolding rows unfolding ptrs
    by (simp add: picture_bytes_take picture_bytes_drop mult.commute mult.left_commute)
  have lp: "length ptrs = ?h"
    unfolding ptrs by simp
  have lenb': "length (picture_bytes to) = ?w * ?h * 3"
    using len by (simp add: length_picture_bytes)
  show ?thesis
    using m c len lenb' hdr lp nth cat by blast
qed


end
